theory Spec2Isabelle
  imports Main "HOL-Library.Sublist" "HOL-Library.AList"
begin

section \<open>Data model (models.py)\<close>

datatype ConstraintLevel = LOW | MEDIUM | HIGH

text \<open>The \<open>.value\<close> of each enumeration member.\<close>

fun level_value :: "ConstraintLevel \<Rightarrow> string" where
  "level_value LOW = ''Low''"
| "level_value MEDIUM = ''Medium''"
| "level_value HIGH = ''High''"

datatype ServiceType = EC2 | LAMBDA | ECS_FARGATE

fun service_value :: "ServiceType \<Rightarrow> string" where
  "service_value EC2 = ''EC2''"
| "service_value LAMBDA = ''Lambda''"
| "service_value ECS_FARGATE = ''ECS_Fargate''"

record UserConstraints =
  budget_sensitivity :: ConstraintLevel
  expected_traffic :: ConstraintLevel
  scalability_requirement :: ConstraintLevel
  latency_sensitivity :: ConstraintLevel
  operational_overhead_tolerance :: ConstraintLevel
  time_to_market_urgency :: ConstraintLevel

text \<open>
  Python dictionaries keep insertion order, and the code iterates over them, so a dictionary
  is an association list: \<open>map_of\<close> is the lookup, \<open>AList.update\<close> the assignment
  \<open>d[k] = v\<close> (a new key goes to the end, an old key keeps its place).
\<close>

record ServiceCharacteristics =
  name :: string
  c_strengths :: "string list"
  c_limitations :: "string list"
  c_best_use_cases :: "string list"
  cost_model :: string
  scaling_characteristics :: string
  operational_overhead :: string

record ServiceEvaluation =
  service_name :: string
  constraint_scores :: "(string \<times> int) list"
  strengths :: "string list"
  limitations :: "string list"
  best_use_cases :: "string list"

record TradeOffAnalysis =
  cost_vs_control :: string
  latency_vs_ops_complexity :: string
  t_edge_case_warnings :: "string list"
  conflicting_constraints :: "string list"

record ComparisonResult =
  evaluations :: "(string \<times> ServiceEvaluation) list"
  trade_off_analysis :: TradeOffAnalysis
  contextual_recommendations :: "(string \<times> string) list"
  edge_case_warnings :: "string list"

section \<open>Exceptions\<close>

text \<open>
  The exception classes that occur: the code raises \<open>ValueError\<close> and wraps failures in
  \<open>RuntimeError\<close> (\<open>raise ... from e\<close>, the second argument is the cause). \<open>LookupError\<close> is
  the built-in class the specification names; in Python neither \<open>ValueError\<close> nor
  \<open>RuntimeError\<close> is a subclass of it.
\<close>

datatype exn = ValueError string | RuntimeError string exn | LookupError string

fun is_LookupError :: "exn \<Rightarrow> bool" where
  "is_LookupError (LookupError m) = True"
| "is_LookupError (ValueError m) = False"
| "is_LookupError (RuntimeError m c) = False"

fun is_ValueError :: "exn \<Rightarrow> bool" where
  "is_ValueError (ValueError m) = True"
| "is_ValueError (RuntimeError m c) = False"
| "is_ValueError (LookupError m) = False"

fun is_RuntimeError :: "exn \<Rightarrow> bool" where
  "is_RuntimeError (RuntimeError m c) = True"
| "is_RuntimeError (ValueError m) = False"
| "is_RuntimeError (LookupError m) = False"

text \<open>\<open>str(e)\<close> of an exception built from one message.\<close>

fun exn_str :: "exn \<Rightarrow> string" where
  "exn_str (ValueError m) = m"
| "exn_str (RuntimeError m c) = m"
| "exn_str (LookupError m) = m"

section \<open>Strings\<close>

text \<open>\<open>sep.join(parts)\<close>.\<close>

fun join :: "string \<Rightarrow> string list \<Rightarrow> string" where
  "join sep [] = []"
| "join sep [x] = x"
| "join sep (x # y # ys) = x @ sep @ join sep (y # ys)"

text \<open>
  \<open>s.lower()\<close>; every text of the program is ASCII, where \<open>lower\<close> replaces the letters
  \<open>A\<close> to \<open>Z\<close> by \<open>a\<close> to \<open>z\<close> and keeps every other character.
\<close>

definition lower_char :: "char \<Rightarrow> char" where
  "lower_char c =
     (case map_of (zip ''ABCDEFGHIJKLMNOPQRSTUVWXYZ'' ''abcdefghijklmnopqrstuvwxyz'') c of
        None \<Rightarrow> c
      | Some d \<Rightarrow> d)"

definition lower :: "string \<Rightarrow> string" where
  "lower s = map lower_char s"

text \<open>\<open>str(n)\<close> of an integer, in decimal.\<close>

definition digit_char :: "nat \<Rightarrow> char" where
  "digit_char d = char_of (48 + d)"

function str_nat :: "nat \<Rightarrow> string" where
  "str_nat n = (if n < 10 then [digit_char n] else str_nat (n div 10) @ [digit_char (n mod 10)])"
  by pat_completeness auto
termination
  by (relation "measure id") auto

definition str_int :: "int \<Rightarrow> string" where
  "str_int i = (if i < 0 then CHR ''-'' # str_nat (nat (- i)) else str_nat (nat i))"

text \<open>The substring test \<open>w in s\<close> of Python is \<^const>\<open>sublist\<close>: \<open>sublist w s\<close>.\<close>

section \<open>Scoring system (scoring_system.py)\<close>

definition scoring_rules :: "(string \<times> (string \<times> (string \<times> int) list) list) list" where
  "scoring_rules =
    [(''budget_sensitivity'',
       [(level_value LOW,
          [(service_value EC2, 4), (service_value LAMBDA, 3), (service_value ECS_FARGATE, 2)]),
        (level_value MEDIUM,
          [(service_value EC2, 5), (service_value LAMBDA, 3), (service_value ECS_FARGATE, 2)]),
        (level_value HIGH,
          [(service_value EC2, 5), (service_value LAMBDA, 2), (service_value ECS_FARGATE, 1)])]),
     (''expected_traffic'',
       [(level_value LOW,
          [(service_value EC2, 2), (service_value LAMBDA, 5), (service_value ECS_FARGATE, 3)]),
        (level_value MEDIUM,
          [(service_value EC2, 4), (service_value LAMBDA, 4), (service_value ECS_FARGATE, 4)]),
        (level_value HIGH,
          [(service_value EC2, 5), (service_value LAMBDA, 3), (service_value ECS_FARGATE, 4)])]),
     (''scalability_requirement'',
       [(level_value LOW,
          [(service_value EC2, 3), (service_value LAMBDA, 4), (service_value ECS_FARGATE, 4)]),
        (level_value MEDIUM,
          [(service_value EC2, 4), (service_value LAMBDA, 5), (service_value ECS_FARGATE, 5)]),
        (level_value HIGH,
          [(service_value EC2, 3), (service_value LAMBDA, 5), (service_value ECS_FARGATE, 4)])]),
     (''latency_sensitivity'',
       [(level_value LOW,
          [(service_value EC2, 4), (service_value LAMBDA, 3), (service_value ECS_FARGATE, 4)]),
        (level_value MEDIUM,
          [(service_value EC2, 5), (service_value LAMBDA, 3), (service_value ECS_FARGATE, 4)]),
        (level_value HIGH,
          [(service_value EC2, 5), (service_value LAMBDA, 1), (service_value ECS_FARGATE, 3)])]),
     (''operational_overhead_tolerance'',
       [(level_value LOW,
          [(service_value EC2, 1), (service_value LAMBDA, 5), (service_value ECS_FARGATE, 4)]),
        (level_value MEDIUM,
          [(service_value EC2, 2), (service_value LAMBDA, 5), (service_value ECS_FARGATE, 4)]),
        (level_value HIGH,
          [(service_value EC2, 4), (service_value LAMBDA, 4), (service_value ECS_FARGATE, 3)])]),
     (''time_to_market_urgency'',
       [(level_value LOW,
          [(service_value EC2, 3), (service_value LAMBDA, 4), (service_value ECS_FARGATE, 3)]),
        (level_value MEDIUM,
          [(service_value EC2, 2), (service_value LAMBDA, 5), (service_value ECS_FARGATE, 4)]),
        (level_value HIGH,
          [(service_value EC2, 1), (service_value LAMBDA, 5), (service_value ECS_FARGATE, 3)])])]"

text \<open>
  \<open>score_service_against_constraint(service, constraint, value)\<close>: the three membership
  guards in the order of the code, then the range guard on the score found.
\<close>

definition score_service_against_constraint :: "string \<Rightarrow> string \<Rightarrow> string \<Rightarrow> exn + int" where
  "score_service_against_constraint service constraint val =
     (case map_of scoring_rules constraint of
        None \<Rightarrow> Inl (ValueError (''Unknown constraint: '' @ constraint))
      | Some levels \<Rightarrow>
          (case map_of levels val of
             None \<Rightarrow> Inl (ValueError (''Unknown constraint value: '' @ val))
           | Some services \<Rightarrow>
               (case map_of services service of
                  None \<Rightarrow> Inl (ValueError (''Unknown service: '' @ service))
                | Some score \<Rightarrow>
                    if \<not> (1 \<le> score \<and> score \<le> 5)
                    then Inl (ValueError (''Invalid score '' @ str_int score @ '' for '' @ service
                                @ '' on '' @ constraint @ ''='' @ val))
                    else Inr score)))"

text \<open>The dictionary \<open>constraint_mapping\<close> of \<open>get_all_scores\<close>.\<close>

definition constraint_mapping :: "UserConstraints \<Rightarrow> (string \<times> string) list" where
  "constraint_mapping constraints =
    [(''budget_sensitivity'', level_value (budget_sensitivity constraints)),
     (''expected_traffic'', level_value (expected_traffic constraints)),
     (''scalability_requirement'', level_value (scalability_requirement constraints)),
     (''latency_sensitivity'', level_value (latency_sensitivity constraints)),
     (''operational_overhead_tolerance'', level_value (operational_overhead_tolerance constraints)),
     (''time_to_market_urgency'', level_value (time_to_market_urgency constraints))]"

text \<open>The loop of \<open>get_all_scores\<close>: the first failing lookup ends it with its exception.\<close>

fun get_all_scores_loop ::
  "string \<Rightarrow> (string \<times> string) list \<Rightarrow> (string \<times> int) list \<Rightarrow> exn + (string \<times> int) list" where
  "get_all_scores_loop service [] scores = Inr scores"
| "get_all_scores_loop service ((constraint_name, constraint_value) # rest) scores =
     (case score_service_against_constraint service constraint_name constraint_value of
        Inl e \<Rightarrow> Inl e
      | Inr s \<Rightarrow> get_all_scores_loop service rest (AList.update constraint_name s scores))"

definition get_all_scores :: "string \<Rightarrow> UserConstraints \<Rightarrow> exn + (string \<times> int) list" where
  "get_all_scores service constraints =
     get_all_scores_loop service (constraint_mapping constraints) []"

section \<open>Service repository (service_repository.py)\<close>

definition services :: "(string \<times> ServiceCharacteristics) list" where
  "services =
    [(service_value EC2,
      \<lparr>name = ''AWS EC2'',
       c_strengths =
         [''Full control over infrastructure and OS'',
          ''Cost optimization potential with reserved instances'',
          ''Performance tuning capabilities'',
          ''Support for specialized hardware (GPU, high-memory)'',
          ''No vendor lock-in for application code'',
          ''Mature ecosystem and tooling''],
       c_limitations =
         [''High operational overhead (patching, monitoring, scaling)'',
          ''Slower provisioning and scaling compared to serverless'',
          ''Requires infrastructure expertise'',
          ''Manual capacity planning needed'',
          ''Responsibility for security and maintenance''],
       c_best_use_cases =
         [''Legacy systems requiring specific OS configurations'',
          ''Applications needing specialized hardware'',
          ''Long-running, predictable workloads'',
          ''Teams with strong infrastructure capabilities'',
          ''Cost-sensitive applications with predictable usage''],
       cost_model = ''Pay for compute time, potential savings with reserved instances'',
       scaling_characteristics = ''Manual or auto-scaling, slower response time'',
       operational_overhead = ''High - full infrastructure management required''\<rparr>),
     (service_value LAMBDA,
      \<lparr>name = ''AWS Lambda'',
       c_strengths =
         [''Zero infrastructure management'',
          ''Automatic scaling from zero to thousands'',
          ''Pay only for actual execution time'',
          ''Fast prototyping and development'',
          ''Built-in high availability'',
          ''Event-driven architecture support''],
       c_limitations =
         [''Cold start latency (100-800ms for most runtimes)'',
          ''15-minute maximum execution time'',
          ''Vendor lock-in with AWS-specific APIs'',
          ''Cost can scale unpredictably with high usage'',
          ''Limited runtime environment control'',
          ''Debugging complexity in distributed systems''],
       c_best_use_cases =
         [''Event-driven processing (S3, DynamoDB triggers)'',
          ''Low-traffic web APIs and microservices'',
          ''Scheduled tasks and cron jobs'',
          ''Rapid prototyping and MVPs'',
          ''Teams wanting zero infrastructure management''],
       cost_model = ''Pay per request and execution time, can become expensive at scale'',
       scaling_characteristics = ''Instant automatic scaling, handles traffic spikes well'',
       operational_overhead = ''Very low - AWS manages all infrastructure''\<rparr>),
     (service_value ECS_FARGATE,
      \<lparr>name = ''AWS ECS Fargate'',
       c_strengths =
         [''Container benefits without cluster management'',
          ''Faster provisioning than EC2'',
          ''No server management required'',
          ''Good for microservices architecture'',
          ''Integrated with AWS ecosystem'',
          ''Predictable pricing model''],
       c_limitations =
         [''Higher per-unit cost than EC2'',
          ''Limited runtime control compared to EC2'',
          ''No support for spot instances'',
          ''Less flexibility than self-managed containers'',
          ''Still requires container expertise'',
          ''Slower cold starts than Lambda''],
       c_best_use_cases =
         [''Containerized web applications'',
          ''Microservices without Kubernetes complexity'',
          ''Teams familiar with containers but not infrastructure'',
          ''Applications requiring more control than Lambda'',
          ''Batch processing jobs''],
       cost_model = ''Pay for allocated CPU and memory, higher than EC2 per unit'',
       scaling_characteristics = ''Automatic scaling, faster than EC2 but slower than Lambda'',
       operational_overhead = ''Medium - container management without server management''\<rparr>)]"

definition get_service_characteristics :: "string \<Rightarrow> exn + ServiceCharacteristics" where
  "get_service_characteristics service =
     (case map_of services service of
        None \<Rightarrow> Inl (ValueError (''Unknown service: '' @ service))
      | Some ch \<Rightarrow> Inr ch)"

definition get_all_services :: "string list" where
  "get_all_services = map fst services"

section \<open>Constraint evaluator (constraint_evaluator.py)\<close>

text \<open>The lists are copied (\<open>.copy()\<close>); as values the copies equal the originals.\<close>

definition evaluate_single_service :: "string \<Rightarrow> UserConstraints \<Rightarrow> exn + ServiceEvaluation" where
  "evaluate_single_service service constraints =
     (case get_service_characteristics service of
        Inl e \<Rightarrow> Inl e
      | Inr characteristics \<Rightarrow>
          (case get_all_scores service constraints of
             Inl e \<Rightarrow> Inl e
           | Inr scores \<Rightarrow>
               Inr \<lparr>service_name = name characteristics,
                    constraint_scores = scores,
                    strengths = c_strengths characteristics,
                    limitations = c_limitations characteristics,
                    best_use_cases = c_best_use_cases characteristics\<rparr>))"

fun evaluate_services_loop ::
  "string list \<Rightarrow> UserConstraints \<Rightarrow> (string \<times> ServiceEvaluation) list
     \<Rightarrow> exn + (string \<times> ServiceEvaluation) list" where
  "evaluate_services_loop [] constraints evals = Inr evals"
| "evaluate_services_loop (service # rest) constraints evals =
     (case evaluate_single_service service constraints of
        Inl e \<Rightarrow> Inl e
      | Inr ev \<Rightarrow> evaluate_services_loop rest constraints (AList.update service ev evals))"

definition evaluate_services :: "UserConstraints \<Rightarrow> exn + (string \<times> ServiceEvaluation) list" where
  "evaluate_services constraints = evaluate_services_loop get_all_services constraints []"

text \<open>The text that \<open>validate_no_winner_declaration\<close> scans for one evaluation.\<close>

definition all_text :: "ServiceEvaluation \<Rightarrow> string" where
  "all_text evaluation =
     lower (join '' ''
       [service_name evaluation,
        join '' '' (strengths evaluation),
        join '' '' (limitations evaluation),
        join '' '' (best_use_cases evaluation)])"

definition winner_words :: "string list" where
  "winner_words = [''best'', ''winner'', ''optimal'', ''perfect'', ''ideal choice'']"

fun validate_no_winner_declaration :: "(string \<times> ServiceEvaluation) list \<Rightarrow> bool" where
  "validate_no_winner_declaration [] = True"
| "validate_no_winner_declaration ((service, evaluation) # rest) =
     (if list_ex (\<lambda>word. sublist word (all_text evaluation)) winner_words then False
      else validate_no_winner_declaration rest)"

section \<open>Trade-off analyzer (trade_off_analyzer.py)\<close>

definition analyze_cost_vs_control_trade_offs ::
  "(string \<times> ServiceEvaluation) list \<Rightarrow> UserConstraints \<Rightarrow> string" where
  "analyze_cost_vs_control_trade_offs evals constraints =
     join '' ''
       ([''EC2 offers the highest level of infrastructure control but requires significant operational investment. This is a good choice when you need specialized hardware, custom OS configurations, or want to optimize costs through reserved instances. The trade-off here is between maximum flexibility and operational complexity.'']
        @ (if budget_sensitivity constraints = HIGH
           then [''Lambda eliminates infrastructure control in exchange for zero operational overhead. This may be a limitation if you need predictable costs at high scale, as Lambda pricing can become expensive with sustained high usage. This is a good choice when operational simplicity outweighs cost predictability.'']
           else [''Lambda trades infrastructure control for operational simplicity. The trade-off here is between hands-off management and cost predictability at scale.''])
        @ [''ECS Fargate provides a middle ground, offering container-level control without server management. This may be a limitation if cost optimization is critical, as Fargate has higher per-unit costs than EC2. This is a good choice when you want container benefits without Kubernetes complexity.''])"

definition analyze_latency_vs_ops_trade_offs ::
  "(string \<times> ServiceEvaluation) list \<Rightarrow> UserConstraints \<Rightarrow> string" where
  "analyze_latency_vs_ops_trade_offs evals constraints =
     join '' ''
       (if latency_sensitivity constraints = HIGH
        then [''High latency sensitivity creates clear trade-offs between performance and operational complexity. EC2 provides the most consistent, low-latency performance but requires extensive operational management including monitoring, patching, and scaling configuration.'',
              ''Lambda's cold start latency (100-800ms) may be a limitation if consistent low latency is required. The trade-off here is between zero operational overhead and performance predictability.'',
              ''ECS Fargate offers better latency than Lambda but with some operational complexity. This is a good choice when you need better performance than Lambda but less operational overhead than EC2.'']
        else [''With moderate latency requirements, the trade-off shifts toward operational efficiency. Lambda's occasional cold starts become acceptable in exchange for zero infrastructure management. The trade-off here is between perfect performance and operational simplicity.''])"

definition generate_edge_case_warnings :: "UserConstraints \<Rightarrow> string list" where
  "generate_edge_case_warnings constraints =
     (if budget_sensitivity constraints = HIGH \<and> scalability_requirement constraints = HIGH
      then [''Budget-scalability tension: High budget sensitivity with high scalability creates inherent conflict. The trade-off here is between cost control and scaling capabilities. This may be a limitation if both constraints are equally important.'']
      else [])
     @ (if latency_sensitivity constraints = HIGH \<and> expected_traffic constraints = HIGH
        then [''Performance-scale challenge: High latency sensitivity with high traffic requires careful architecture. This is a good choice when consistent performance is critical, but may require significant infrastructure investment.'']
        else [])
     @ (if time_to_market_urgency constraints = HIGH \<and> operational_overhead_tolerance constraints = LOW
        then [''Speed-simplicity alignment: Fast time-to-market with low operational tolerance strongly favors serverless solutions. This is a good choice when rapid deployment is the priority, though it may limit long-term optimization options.'']
        else [])"

definition identify_constraint_conflicts :: "UserConstraints \<Rightarrow> string list" where
  "identify_constraint_conflicts constraints =
     (if budget_sensitivity constraints = HIGH \<and> latency_sensitivity constraints = HIGH
      then [''Budget sensitivity vs Latency sensitivity''] else [])
     @ (if budget_sensitivity constraints = HIGH \<and> scalability_requirement constraints = HIGH
        then [''Budget sensitivity vs Scalability requirement''] else [])
     @ (if time_to_market_urgency constraints = HIGH \<and> operational_overhead_tolerance constraints = HIGH
        then [''Time-to-market urgency vs Operational overhead tolerance''] else [])
     @ (if expected_traffic constraints = HIGH \<and> budget_sensitivity constraints = HIGH
        then [''Expected traffic vs Budget sensitivity''] else [])"

definition analyze_trade_offs ::
  "(string \<times> ServiceEvaluation) list \<Rightarrow> UserConstraints \<Rightarrow> TradeOffAnalysis" where
  "analyze_trade_offs evals constraints =
     \<lparr>cost_vs_control = analyze_cost_vs_control_trade_offs evals constraints,
      latency_vs_ops_complexity = analyze_latency_vs_ops_trade_offs evals constraints,
      t_edge_case_warnings = generate_edge_case_warnings constraints,
      conflicting_constraints = identify_constraint_conflicts constraints\<rparr>"

section \<open>Explanation generator (explanation_generator.py)\<close>

definition required_phrases :: "string list" where
  "required_phrases =
     [''This is a good choice when'', ''This may be a limitation if'', ''The trade-off here is'']"

text \<open>
  Each \<open>_generate_*_recommendation\<close> builds the list \<open>parts\<close> by conditional appends and
  returns \<open>" ".join(parts)\<close>; the evaluation is read (\<open>scores\<close>) and not used.
\<close>

definition ec2_parts :: "ServiceEvaluation \<Rightarrow> UserConstraints \<Rightarrow> string list" where
  "ec2_parts evaluation constraints =
     (if budget_sensitivity constraints = HIGH
      then [''EC2 is a good choice when budget optimization is critical and you can commit to reserved instances or spot instances for significant cost savings.'']
      else if budget_sensitivity constraints = MEDIUM
      then [''EC2 is a good choice when you want balanced cost control with the flexibility to optimize through instance types and pricing models.'']
      else [''EC2 is a good choice when cost is not the primary concern and you can prioritize performance and control over cost optimization.''])
     @ (if latency_sensitivity constraints = HIGH
        then [''This is a good choice when consistent, predictable performance is required without cold starts or provisioning delays.'']
        else if latency_sensitivity constraints = MEDIUM
        then [''EC2 provides reliable performance for applications with moderate latency requirements.'']
        else [])
     @ (if operational_overhead_tolerance constraints = HIGH
        then [''EC2 is a good choice when your team has strong infrastructure expertise and wants maximum control over the runtime environment.'']
        else if operational_overhead_tolerance constraints = LOW
        then [''This may be a limitation if your team prefers hands-off infrastructure management or lacks expertise in server administration, monitoring, and scaling configuration.'']
        else [])
     @ (if time_to_market_urgency constraints = HIGH
        then [''This may be a limitation if rapid deployment is critical, as EC2 requires more setup time and configuration compared to serverless options.'']
        else if time_to_market_urgency constraints = MEDIUM
        then [''EC2 requires moderate setup time but provides long-term flexibility for evolving requirements.'']
        else [])
     @ (if expected_traffic constraints = HIGH
        then [''EC2 is a good choice when you have high, consistent traffic that can benefit from dedicated resources and cost optimization at scale.'']
        else [])
     @ [''The trade-off here is between maximum infrastructure control and operational complexity. EC2 provides the most flexibility but requires the highest operational investment.'']"

definition generate_ec2_recommendation :: "ServiceEvaluation \<Rightarrow> UserConstraints \<Rightarrow> string" where
  "generate_ec2_recommendation evaluation constraints = join '' '' (ec2_parts evaluation constraints)"

definition lambda_parts :: "ServiceEvaluation \<Rightarrow> UserConstraints \<Rightarrow> string list" where
  "lambda_parts evaluation constraints =
     (if operational_overhead_tolerance constraints = LOW
      then [''Lambda is a good choice when you want zero infrastructure management and can focus purely on business logic without server concerns.'']
      else if operational_overhead_tolerance constraints = MEDIUM
      then [''Lambda is a good choice when you prefer minimal operational overhead while maintaining some flexibility in your architecture.'']
      else [])
     @ (if time_to_market_urgency constraints = HIGH
        then [''This is a good choice when rapid prototyping and deployment are priorities, allowing immediate focus on application development.'']
        else if time_to_market_urgency constraints = MEDIUM
        then [''Lambda enables faster development cycles compared to traditional infrastructure approaches.'']
        else [])
     @ (if expected_traffic constraints = LOW
        then [''Lambda is a good choice when traffic is low or highly variable, as you pay only for actual execution time with automatic scaling from zero.'']
        else if expected_traffic constraints = MEDIUM
        then [''Lambda handles moderate traffic well with automatic scaling, though costs should be monitored.'']
        else if expected_traffic constraints = HIGH
        then [''Lambda can handle high traffic but cost implications should be carefully evaluated.'']
        else [])
     @ (if latency_sensitivity constraints = HIGH
        then [''This may be a limitation if consistent low latency is critical, as Lambda cold starts can introduce 100-800ms delays for new execution environments.'']
        else if latency_sensitivity constraints = MEDIUM
        then [''Lambda's occasional cold starts may be acceptable for applications with moderate latency requirements.'']
        else [])
     @ (if budget_sensitivity constraints = HIGH \<and> expected_traffic constraints = HIGH
        then [''This may be a limitation if you have sustained high traffic with tight budget constraints, as Lambda costs can become significant at scale.'']
        else if budget_sensitivity constraints = HIGH
        then [''Lambda can be cost-effective for variable workloads but requires monitoring to avoid unexpected costs.'']
        else [])
     @ [''The trade-off here is between operational simplicity and performance predictability. Lambda eliminates infrastructure concerns but introduces cold start latency and potential cost scaling challenges.'']"

definition generate_lambda_recommendation :: "ServiceEvaluation \<Rightarrow> UserConstraints \<Rightarrow> string" where
  "generate_lambda_recommendation evaluation constraints =
     join '' '' (lambda_parts evaluation constraints)"

definition fargate_parts :: "ServiceEvaluation \<Rightarrow> UserConstraints \<Rightarrow> string list" where
  "fargate_parts evaluation constraints =
     [''ECS Fargate is a good choice when you want container benefits without managing Kubernetes clusters or EC2 instances, providing a middle ground between control and convenience.'']
     @ (if scalability_requirement constraints = HIGH
        then [''This is a good choice when you need automatic container scaling without the complexity of cluster management or the limitations of Lambda's execution model.'']
        else [])
     @ (if operational_overhead_tolerance constraints = MEDIUM \<and> time_to_market_urgency constraints = MEDIUM
        then [''Fargate is a good choice when you want more control than Lambda but less operational overhead than EC2, especially for containerized microservices.'']
        else [])
     @ (if budget_sensitivity constraints = HIGH
        then [''This may be a limitation if cost optimization is critical, as Fargate has higher per-unit costs than EC2 and doesn't support spot instance pricing.'']
        else [])
     @ (if operational_overhead_tolerance constraints = HIGH
        then [''This may be a limitation if you want maximum infrastructure control or need custom OS configurations that aren't available in the managed container environment.'']
        else [])
     @ [''The trade-off here is between container convenience and cost efficiency. Fargate simplifies container orchestration but at a premium compared to self-managed EC2 instances.'']"

definition generate_fargate_recommendation :: "ServiceEvaluation \<Rightarrow> UserConstraints \<Rightarrow> string" where
  "generate_fargate_recommendation evaluation constraints =
     join '' '' (fargate_parts evaluation constraints)"

text \<open>
  The loop of \<open>generate_contextual_recommendations\<close> over \<open>evaluations.items()\<close>;
  \<open>recommend_item\<close> is its body: a key that is none of the three service identifiers falls
  through the \<open>if/elif\<close> chain and adds nothing.
\<close>

definition recommend_item ::
  "string \<times> ServiceEvaluation \<Rightarrow> UserConstraints \<Rightarrow> (string \<times> string) list
     \<Rightarrow> (string \<times> string) list" where
  "recommend_item item constraints recs =
     (case item of (service_key, evaluation) \<Rightarrow>
        if service_key = service_value EC2
        then AList.update service_key (generate_ec2_recommendation evaluation constraints) recs
        else if service_key = service_value LAMBDA
        then AList.update service_key (generate_lambda_recommendation evaluation constraints) recs
        else if service_key = service_value ECS_FARGATE
        then AList.update service_key (generate_fargate_recommendation evaluation constraints) recs
        else recs)"

primrec generate_contextual_recommendations_loop ::
  "(string \<times> ServiceEvaluation) list \<Rightarrow> UserConstraints \<Rightarrow> (string \<times> string) list
     \<Rightarrow> (string \<times> string) list" where
  "generate_contextual_recommendations_loop [] constraints recs = recs"
| "generate_contextual_recommendations_loop (item # rest) constraints recs =
     generate_contextual_recommendations_loop rest constraints (recommend_item item constraints recs)"

definition generate_contextual_recommendations ::
  "(string \<times> ServiceEvaluation) list \<Rightarrow> UserConstraints \<Rightarrow> (string \<times> string) list" where
  "generate_contextual_recommendations evals constraints =
     generate_contextual_recommendations_loop evals constraints []"

section \<open>Comparison engine (comparison_engine.py)\<close>

text \<open>
  The engine receives its three collaborators in the constructor. The record holds the four
  methods it calls on them; each may raise, so each returns an exception or a value.
\<close>

record ComparisonEngine =
  eng_evaluate_services :: "UserConstraints \<Rightarrow> exn + (string \<times> ServiceEvaluation) list"
  eng_validate_no_winner_declaration :: "(string \<times> ServiceEvaluation) list \<Rightarrow> exn + bool"
  eng_analyze_trade_offs ::
    "(string \<times> ServiceEvaluation) list \<Rightarrow> UserConstraints \<Rightarrow> exn + TradeOffAnalysis"
  eng_generate_contextual_recommendations ::
    "(string \<times> ServiceEvaluation) list \<Rightarrow> UserConstraints \<Rightarrow> exn + (string \<times> string) list"

text \<open>Here the levels are compared through their \<open>.value\<close> strings.\<close>

definition identify_edge_case_warnings ::
  "UserConstraints \<Rightarrow> (string \<times> ServiceEvaluation) list \<Rightarrow> string list" where
  "identify_edge_case_warnings constraints evals =
     (if level_value (budget_sensitivity constraints) = ''High''
         \<and> level_value (scalability_requirement constraints) = ''High''
      then [''Edge case detected: High budget sensitivity with high scalability requirements creates inherent tension. The trade-off here is between cost control and scaling capabilities.'']
      else [])
     @ (if level_value (latency_sensitivity constraints) = ''High''
           \<and> level_value (expected_traffic constraints) = ''High''
        then [''Performance consideration: High latency sensitivity with high traffic requires careful service selection. This may be a limitation if cold starts or provisioning delays are not acceptable.'']
        else [])
     @ (if level_value (time_to_market_urgency constraints) = ''High''
           \<and> level_value (operational_overhead_tolerance constraints) = ''Low''
        then [''Constraint alignment: Fast time-to-market with low operational tolerance suggests serverless solutions. This is a good choice when rapid deployment is prioritized over infrastructure control.'']
        else [])
     @ (if level_value (budget_sensitivity constraints) = ''High''
           \<and> level_value (latency_sensitivity constraints) = ''High''
        then [''Trade-off consideration: High budget sensitivity with high latency sensitivity may require careful optimization. The trade-off here is between cost efficiency and performance guarantees.'']
        else [])"

definition winner_phrases :: "string list" where
  "winner_phrases = [''best choice'', ''optimal'', ''winner'', ''perfect solution'']"

text \<open>
  The scan of the recommendations in \<open>_validate_neutrality\<close>: the first phrase found in
  the first recommendation that has one raises.
\<close>

fun scan_recommendations :: "(string \<times> string) list \<Rightarrow> exn + unit" where
  "scan_recommendations [] = Inr ()"
| "scan_recommendations ((service, recommendation) # rest) =
     (case find (\<lambda>phrase. sublist phrase (lower recommendation)) winner_phrases of
        Some phrase \<Rightarrow>
          Inl (ValueError (''Winner language detected in '' @ service @ '' recommendation: '' @ phrase))
      | None \<Rightarrow> scan_recommendations rest)"

definition validate_neutrality :: "ComparisonEngine \<Rightarrow> ComparisonResult \<Rightarrow> exn + unit" where
  "validate_neutrality engine result =
     (case eng_validate_no_winner_declaration engine (evaluations result) of
        Inl e \<Rightarrow> Inl e
      | Inr ok \<Rightarrow>
          if \<not> ok then Inl (ValueError ''Neutrality violation: A service was declared as winner'')
          else if length (evaluations result) \<noteq> 3
          then Inl (ValueError (''Expected '' @ str_int 3 @ '' services, got ''
                      @ str_int (int (length (evaluations result)))))
          else if length (contextual_recommendations result) \<noteq> 3
          then Inl (ValueError ''Not all services have contextual recommendations'')
          else scan_recommendations (contextual_recommendations result))"

text \<open>The body of the \<open>try\<close> block of \<open>compare_services\<close>.\<close>

definition compare_services_body :: "ComparisonEngine \<Rightarrow> UserConstraints \<Rightarrow> exn + ComparisonResult" where
  "compare_services_body engine constraints =
     (case eng_evaluate_services engine constraints of
        Inl e \<Rightarrow> Inl e
      | Inr evals \<Rightarrow>
          (case eng_analyze_trade_offs engine evals constraints of
             Inl e \<Rightarrow> Inl e
           | Inr analysis \<Rightarrow>
               (case eng_generate_contextual_recommendations engine evals constraints of
                  Inl e \<Rightarrow> Inl e
                | Inr recs \<Rightarrow>
                    (let result =
                       \<lparr>evaluations = evals,
                        trade_off_analysis = analysis,
                        contextual_recommendations = recs,
                        edge_case_warnings = identify_edge_case_warnings constraints evals\<rparr>
                     in case validate_neutrality engine result of
                          Inl e \<Rightarrow> Inl e
                        | Inr u \<Rightarrow> Inr result))))"

text \<open>
  \<open>except Exception as e: raise RuntimeError(f"Comparison engine failed: {str(e)}") from e\<close>:
  every exception of the body, whatever its class, leaves as a \<open>RuntimeError\<close> with the
  original as its cause.
\<close>

definition compare_services :: "ComparisonEngine \<Rightarrow> UserConstraints \<Rightarrow> exn + ComparisonResult" where
  "compare_services engine constraints =
     (case compare_services_body engine constraints of
        Inl e \<Rightarrow> Inl (RuntimeError (''Comparison engine failed: '' @ exn_str e) e)
      | Inr result \<Rightarrow> Inr result)"

text \<open>The engine that \<open>app.py\<close> builds from the components above.\<close>

definition app_engine :: ComparisonEngine where
  "app_engine =
     \<lparr>eng_evaluate_services = evaluate_services,
      eng_validate_no_winner_declaration = (\<lambda>evals. Inr (validate_no_winner_declaration evals)),
      eng_analyze_trade_offs = (\<lambda>evals constraints. Inr (analyze_trade_offs evals constraints)),
      eng_generate_contextual_recommendations =
        (\<lambda>evals constraints. Inr (generate_contextual_recommendations evals constraints))\<rparr>"

text \<open>The three closed key sets, as \<open>validate_all_rules\<close> lists them.\<close>

definition expected_constraints :: "string list" where
  "expected_constraints =
     [''budget_sensitivity'', ''expected_traffic'', ''scalability_requirement'',
      ''latency_sensitivity'', ''operational_overhead_tolerance'', ''time_to_market_urgency'']"

definition expected_levels :: "string list" where
  "expected_levels = [level_value LOW, level_value MEDIUM, level_value HIGH]"

definition expected_services :: "string list" where
  "expected_services = [service_value EC2, service_value LAMBDA, service_value ECS_FARGATE]"

section \<open>Verified properties\<close>

subsection \<open>The scoring table\<close>

lemma score_in_table:
  assumes "constraint \<in> set expected_constraints"
  shows "\<exists>n. score_service_against_constraint (service_value S) constraint (level_value L) = Inr n
             \<and> 1 \<le> n \<and> n \<le> 5"
  using assms
  by (cases S; cases L;
      auto simp add: expected_constraints_def score_service_against_constraint_def scoring_rules_def)

lemma score_unknown_constraint:
  "constraint \<notin> set expected_constraints \<Longrightarrow>
   score_service_against_constraint service constraint val
     = Inl (ValueError (''Unknown constraint: '' @ constraint))"
  by (simp add: expected_constraints_def score_service_against_constraint_def scoring_rules_def)

lemma score_unknown_value:
  "constraint \<in> set expected_constraints \<Longrightarrow> val \<notin> set expected_levels \<Longrightarrow>
   score_service_against_constraint service constraint val
     = Inl (ValueError (''Unknown constraint value: '' @ val))"
  by (auto simp add: expected_constraints_def expected_levels_def
        score_service_against_constraint_def scoring_rules_def)

lemma score_unknown_service:
  "constraint \<in> set expected_constraints \<Longrightarrow> val \<in> set expected_levels \<Longrightarrow>
   service \<notin> set expected_services \<Longrightarrow>
   score_service_against_constraint service constraint val
     = Inl (ValueError (''Unknown service: '' @ service))"
  by (auto simp add: expected_constraints_def expected_levels_def expected_services_def
        score_service_against_constraint_def scoring_rules_def)

lemma expected_services_values: "service \<in> set expected_services \<longleftrightarrow> (\<exists>S. service = service_value S)"
proof
  assume "service \<in> set expected_services"
  then consider "service = service_value EC2" | "service = service_value LAMBDA"
    | "service = service_value ECS_FARGATE"
    by (auto simp add: expected_services_def)
  then show "\<exists>S. service = service_value S"
    by cases blast+
next
  assume "\<exists>S. service = service_value S"
  then obtain S where "service = service_value S" ..
  then show "service \<in> set expected_services"
    by (cases S) (simp_all add: expected_services_def)
qed

lemma expected_levels_values: "val \<in> set expected_levels \<longleftrightarrow> (\<exists>L. val = level_value L)"
proof
  assume "val \<in> set expected_levels"
  then consider "val = level_value LOW" | "val = level_value MEDIUM" | "val = level_value HIGH"
    by (auto simp add: expected_levels_def)
  then show "\<exists>L. val = level_value L"
    by cases blast+
next
  assume "\<exists>L. val = level_value L"
  then obtain L where "val = level_value L" ..
  then show "val \<in> set expected_levels"
    by (cases L) (simp_all add: expected_levels_def)
qed

text \<open>
  C9. The table gives latency sensitivity at level High the score 5 for EC2, 1 for Lambda and
  3 for ECS Fargate.
\<close>

theorem score_latency_high:
  "score_service_against_constraint ''EC2'' ''latency_sensitivity'' ''High'' = Inr 5
   \<and> score_service_against_constraint ''Lambda'' ''latency_sensitivity'' ''High'' = Inr 1
   \<and> score_service_against_constraint ''ECS_Fargate'' ''latency_sensitivity'' ''High'' = Inr 3"
  by (simp add: score_service_against_constraint_def scoring_rules_def)

text \<open>
  C3, as the specification states it, asks for a \<open>LookupError\<close> when a key is outside its
  closed set. The code raises \<open>ValueError\<close>, which is not a \<open>LookupError\<close>: here for the
  service key \<open>GCE\<close>.
\<close>

theorem score_unknown_key_not_LookupError:
  "''GCE'' \<notin> set expected_services
   \<and> score_service_against_constraint ''GCE'' ''budget_sensitivity'' ''Low''
       = Inl (ValueError ''Unknown service: GCE'')
   \<and> \<not> (\<exists>e. score_service_against_constraint ''GCE'' ''budget_sensitivity'' ''Low'' = Inl e
            \<and> is_LookupError e)"
  by (simp add: expected_services_def score_service_against_constraint_def scoring_rules_def)

text \<open>
  C3, amended. With the three keys in their closed sets (3 services, 6 dimensions, 3 levels)
  the call returns an integer from 1 to 5; with any key outside its set it raises a
  \<open>ValueError\<close>, which names the first offending key in the order constraint, value, service.
\<close>

theorem score_contract:
  "(service \<in> set expected_services \<and> constraint \<in> set expected_constraints
      \<and> val \<in> set expected_levels
    \<longrightarrow> (\<exists>n. score_service_against_constraint service constraint val = Inr n \<and> 1 \<le> n \<and> n \<le> 5))
   \<and> (\<not> (service \<in> set expected_services \<and> constraint \<in> set expected_constraints
           \<and> val \<in> set expected_levels)
      \<longrightarrow> (\<exists>e. score_service_against_constraint service constraint val = Inl e
                \<and> is_ValueError e
                \<and> exn_str e =
                    (if constraint \<notin> set expected_constraints then ''Unknown constraint: '' @ constraint
                     else if val \<notin> set expected_levels then ''Unknown constraint value: '' @ val
                     else ''Unknown service: '' @ service)))"
proof (intro conjI impI)
  assume a: "service \<in> set expected_services \<and> constraint \<in> set expected_constraints
      \<and> val \<in> set expected_levels"
  then obtain S L where "service = service_value S" "val = level_value L"
    using expected_services_values expected_levels_values by blast
  with a show "\<exists>n. score_service_against_constraint service constraint val = Inr n \<and> 1 \<le> n \<and> n \<le> 5"
    using score_in_table by blast
next
  assume n: "\<not> (service \<in> set expected_services \<and> constraint \<in> set expected_constraints
           \<and> val \<in> set expected_levels)"
  show "\<exists>e. score_service_against_constraint service constraint val = Inl e
                \<and> is_ValueError e
                \<and> exn_str e =
                    (if constraint \<notin> set expected_constraints then ''Unknown constraint: '' @ constraint
                     else if val \<notin> set expected_levels then ''Unknown constraint value: '' @ val
                     else ''Unknown service: '' @ service)"
  proof (cases "constraint \<in> set expected_constraints")
    case False
    then show ?thesis by (simp add: score_unknown_constraint)
  next
    case c: True
    show ?thesis
    proof (cases "val \<in> set expected_levels")
      case False
      with c show ?thesis by (simp add: score_unknown_value)
    next
      case True
      with c n have "service \<notin> set expected_services" by blast
      with c True show ?thesis by (simp add: score_unknown_service)
    qed
  qed
qed

theorem score_contract_witness:
  "(''Lambda'' \<in> set expected_services \<and> ''expected_traffic'' \<in> set expected_constraints
      \<and> ''Medium'' \<in> set expected_levels)
   \<and> (\<exists>n. score_service_against_constraint ''Lambda'' ''expected_traffic'' ''Medium'' = Inr n
          \<and> 1 \<le> n \<and> n \<le> 5)
   \<and> \<not> (''Lambda'' \<in> set expected_services \<and> ''expected_traffic'' \<in> set expected_constraints
          \<and> ''Huge'' \<in> set expected_levels)
   \<and> (\<exists>e. score_service_against_constraint ''Lambda'' ''expected_traffic'' ''Huge'' = Inl e
          \<and> is_ValueError e \<and> exn_str e = ''Unknown constraint value: Huge'')"
proof -
  have h1: "''Lambda'' \<in> set expected_services \<and> ''expected_traffic'' \<in> set expected_constraints
      \<and> ''Medium'' \<in> set expected_levels"
    by (simp add: expected_services_def expected_constraints_def expected_levels_def)
  have h2: "\<not> (''Lambda'' \<in> set expected_services \<and> ''expected_traffic'' \<in> set expected_constraints
          \<and> ''Huge'' \<in> set expected_levels)"
    by (simp add: expected_levels_def)
  have c: "''expected_traffic'' \<in> set expected_constraints" "''Huge'' \<notin> set expected_levels"
    by (simp_all add: expected_constraints_def expected_levels_def)
  from score_contract [of "''Lambda''" "''expected_traffic''" "''Medium''"] h1
  have r1: "\<exists>n. score_service_against_constraint ''Lambda'' ''expected_traffic'' ''Medium'' = Inr n
          \<and> 1 \<le> n \<and> n \<le> 5"
    by blast
  from score_contract [of "''Lambda''" "''expected_traffic''" "''Huge''"] h2 c
  have r2: "\<exists>e. score_service_against_constraint ''Lambda'' ''expected_traffic'' ''Huge'' = Inl e
          \<and> is_ValueError e \<and> exn_str e = ''Unknown constraint value: Huge''"
    by simp
  from h1 h2 r1 r2 show ?thesis by blast
qed

subsection \<open>The evaluator\<close>

lemma get_all_services_eq:
  "get_all_services = [service_value EC2, service_value LAMBDA, service_value ECS_FARGATE]"
  by (simp add: get_all_services_def services_def)

lemma get_service_characteristics_ok:
  "\<exists>ch. map_of services (service_value S) = Some ch
        \<and> get_service_characteristics (service_value S) = Inr ch"
  by (cases S) (simp_all add: get_service_characteristics_def services_def)

lemma get_all_scores_ok:
  "\<exists>n1 n2 n3 n4 n5 n6.
     get_all_scores (service_value S) C =
       Inr [(''budget_sensitivity'', n1), (''expected_traffic'', n2),
            (''scalability_requirement'', n3), (''latency_sensitivity'', n4),
            (''operational_overhead_tolerance'', n5), (''time_to_market_urgency'', n6)]
     \<and> (\<forall>n \<in> {n1, n2, n3, n4, n5, n6}. 1 \<le> n \<and> n \<le> 5)"
proof -
  let ?sc = "\<lambda>d l. score_service_against_constraint (service_value S) d (level_value l)"
  obtain n1 where n1: "?sc ''budget_sensitivity'' (budget_sensitivity C) = Inr n1" "1 \<le> n1" "n1 \<le> 5"
    using score_in_table [of "''budget_sensitivity''" S "budget_sensitivity C"]
    by (auto simp add: expected_constraints_def)
  obtain n2 where n2: "?sc ''expected_traffic'' (expected_traffic C) = Inr n2" "1 \<le> n2" "n2 \<le> 5"
    using score_in_table [of "''expected_traffic''" S "expected_traffic C"]
    by (auto simp add: expected_constraints_def)
  obtain n3 where n3: "?sc ''scalability_requirement'' (scalability_requirement C) = Inr n3"
      "1 \<le> n3" "n3 \<le> 5"
    using score_in_table [of "''scalability_requirement''" S "scalability_requirement C"]
    by (auto simp add: expected_constraints_def)
  obtain n4 where n4: "?sc ''latency_sensitivity'' (latency_sensitivity C) = Inr n4" "1 \<le> n4" "n4 \<le> 5"
    using score_in_table [of "''latency_sensitivity''" S "latency_sensitivity C"]
    by (auto simp add: expected_constraints_def)
  obtain n5 where n5: "?sc ''operational_overhead_tolerance'' (operational_overhead_tolerance C) = Inr n5"
      "1 \<le> n5" "n5 \<le> 5"
    using score_in_table [of "''operational_overhead_tolerance''" S "operational_overhead_tolerance C"]
    by (auto simp add: expected_constraints_def)
  obtain n6 where n6: "?sc ''time_to_market_urgency'' (time_to_market_urgency C) = Inr n6"
      "1 \<le> n6" "n6 \<le> 5"
    using score_in_table [of "''time_to_market_urgency''" S "time_to_market_urgency C"]
    by (auto simp add: expected_constraints_def)
  have "get_all_scores (service_value S) C =
       Inr [(''budget_sensitivity'', n1), (''expected_traffic'', n2),
            (''scalability_requirement'', n3), (''latency_sensitivity'', n4),
            (''operational_overhead_tolerance'', n5), (''time_to_market_urgency'', n6)]"
    by (simp add: get_all_scores_def constraint_mapping_def n1 n2 n3 n4 n5 n6)
  with n1 n2 n3 n4 n5 n6 show ?thesis by blast
qed

lemma evaluate_single_service_ok:
  "\<exists>ch scores.
     map_of services (service_value S) = Some ch
     \<and> get_all_scores (service_value S) C = Inr scores
     \<and> evaluate_single_service (service_value S) C =
         Inr \<lparr>service_name = name ch, constraint_scores = scores, strengths = c_strengths ch,
              limitations = c_limitations ch, best_use_cases = c_best_use_cases ch\<rparr>"
proof -
  obtain ch where ch: "map_of services (service_value S) = Some ch"
      "get_service_characteristics (service_value S) = Inr ch"
    using get_service_characteristics_ok by blast
  obtain scores where sc: "get_all_scores (service_value S) C = Inr scores"
    using get_all_scores_ok [of S C] by blast
  show ?thesis
    by (simp add: evaluate_single_service_def ch sc)
qed

lemma evaluate_services_ok:
  "\<exists>e1 e2 e3.
     evaluate_single_service (service_value EC2) C = Inr e1
     \<and> evaluate_single_service (service_value LAMBDA) C = Inr e2
     \<and> evaluate_single_service (service_value ECS_FARGATE) C = Inr e3
     \<and> evaluate_services C =
         Inr [(service_value EC2, e1), (service_value LAMBDA, e2), (service_value ECS_FARGATE, e3)]"
proof -
  obtain e1 where e1: "evaluate_single_service (service_value EC2) C = Inr e1"
    using evaluate_single_service_ok [of EC2 C] by blast
  obtain e2 where e2: "evaluate_single_service (service_value LAMBDA) C = Inr e2"
    using evaluate_single_service_ok [of LAMBDA C] by blast
  obtain e3 where e3: "evaluate_single_service (service_value ECS_FARGATE) C = Inr e3"
    using evaluate_single_service_ok [of ECS_FARGATE C] by blast
  have "evaluate_services C =
         Inr [(service_value EC2, e1), (service_value LAMBDA, e2), (service_value ECS_FARGATE, e3)]"
    unfolding evaluate_services_def get_all_services_eq
    using e1 e2 e3 by simp
  with e1 e2 e3 show ?thesis by blast
qed

text \<open>
  C6. For every constraint record and each of the three service identifiers, evaluating the
  one service gives the entry that the batch evaluation stores under that identifier; both
  calls return.
\<close>

theorem evaluate_single_service_is_batch_entry:
  "\<exists>evals ev.
     evaluate_services C = Inr evals
     \<and> evaluate_single_service (service_value S) C = Inr ev
     \<and> map_of evals (service_value S) = Some ev"
proof -
  obtain e1 e2 e3 where e:
      "evaluate_single_service (service_value EC2) C = Inr e1"
      "evaluate_single_service (service_value LAMBDA) C = Inr e2"
      "evaluate_single_service (service_value ECS_FARGATE) C = Inr e3"
      "evaluate_services C =
         Inr [(service_value EC2, e1), (service_value LAMBDA, e2), (service_value ECS_FARGATE, e3)]"
    using evaluate_services_ok [of C] by blast
  show ?thesis
    using e by (cases S) simp_all
qed

subsection \<open>The trade-off analyzer\<close>

text \<open>
  C4, as the specification states it, puts the label of rule 1 (budget against scalability)
  before the label of rule 2 (budget against latency). The code appends the latency label
  first: with budget, scalability and latency all High the list starts with it.
\<close>

theorem conflicts_latency_before_scalability:
  "identify_constraint_conflicts
     \<lparr>budget_sensitivity = HIGH, expected_traffic = LOW, scalability_requirement = HIGH,
      latency_sensitivity = HIGH, operational_overhead_tolerance = LOW,
      time_to_market_urgency = LOW\<rparr>
   = [''Budget sensitivity vs Latency sensitivity'',
      ''Budget sensitivity vs Scalability requirement'']
   \<and> identify_constraint_conflicts
     \<lparr>budget_sensitivity = HIGH, expected_traffic = LOW, scalability_requirement = HIGH,
      latency_sensitivity = HIGH, operational_overhead_tolerance = LOW,
      time_to_market_urgency = LOW\<rparr>
   \<noteq> [''Budget sensitivity vs Scalability requirement'',
      ''Budget sensitivity vs Latency sensitivity'']"
  by (simp add: identify_constraint_conflicts_def)

text \<open>
  C4, amended. The list of conflicts is a function of the constraints alone; its labels come
  in the order latency, scalability, time-to-market, traffic, and each label is present
  exactly when its two conditions hold.
\<close>

theorem conflicts_in_code_order:
  "identify_constraint_conflicts C =
     map fst (filter snd
       [(''Budget sensitivity vs Latency sensitivity'',
           budget_sensitivity C = HIGH \<and> latency_sensitivity C = HIGH),
        (''Budget sensitivity vs Scalability requirement'',
           budget_sensitivity C = HIGH \<and> scalability_requirement C = HIGH),
        (''Time-to-market urgency vs Operational overhead tolerance'',
           time_to_market_urgency C = HIGH \<and> operational_overhead_tolerance C = HIGH),
        (''Expected traffic vs Budget sensitivity'',
           expected_traffic C = HIGH \<and> budget_sensitivity C = HIGH)])"
  by (simp add: identify_constraint_conflicts_def)

text \<open>
  C7. The trade-off analysis does not depend on the evaluations it is given: any two
  evaluation maps give the same analysis for the same constraints.
\<close>

theorem analyze_trade_offs_ignores_evaluations:
  "analyze_trade_offs E1 C = analyze_trade_offs E2 C"
  by (simp add: analyze_trade_offs_def analyze_cost_vs_control_trade_offs_def
        analyze_latency_vs_ops_trade_offs_def)

end
